theory Spec2Isabelle
  imports Complex_Main "HOL-Library.Multiset" "HOL-Library.Char_ord" "HOL-Library.List_Lexorder"
    "HOL-Library.Log_Nat"
begin

section \<open>Python values handled by the recipe finder\<close>

text \<open>
  Every value the program works on comes out of a JSON decoder (the API responses and the
  favorites file), so the Python objects are the JSON-shaped ones: \<open>None\<close>, booleans, integers,
  finite floats, strings, lists, and dictionaries with string keys. A dictionary is kept as an
  association list in insertion order; a Python dictionary has each key once, and lookup is
  \<open>map_of\<close>. Floats are the real numbers they denote: Python compares an \<open>int\<close> with a
  \<open>float\<close> by exact value, and the program only compares numbers, it does no float arithmetic
  on recipe data. A string is the list of its characters, and the order on strings is Python's:
  character by character by code, a proper prefix first. Type \<open>char\<close> has the 256 codes
  from 0 to 255, so those are the characters of the strings read here.
\<close>

datatype json =
    JNull
  | JBool bool
  | JInt int
  | JFloat real
  | JStr string
  | JArr "json list"
  | JObj "(string \<times> json) list"

text \<open>
  The exceptions that the modelled code can raise or that can pass through it, as its
  \<open>except\<close> clauses tell them apart: \<open>json.JSONDecodeError\<close>,
  \<open>requests.exceptions.RequestException\<close> (with the text \<open>str(e)\<close> that gets printed),
  and \<open>OtherError\<close> for any class that no clause of the program names.
\<close>

datatype exn =
    KeyError
  | TypeError
  | AttributeError
  | JSONDecodeError
  | RequestException string
  | OtherError string

definition bind_exn :: "exn + 'a \<Rightarrow> ('a \<Rightarrow> exn + 'b) \<Rightarrow> exn + 'b" where
  "bind_exn m f = (case m of Inl e \<Rightarrow> Inl e | Inr x \<Rightarrow> f x)"

text \<open>\<open>obj.get(key, default)\<close>: only dictionaries have the method.\<close>

fun py_get :: "json \<Rightarrow> string \<Rightarrow> json \<Rightarrow> exn + json" where
  "py_get (JObj kvs) key dflt = Inr (case map_of kvs key of None \<Rightarrow> dflt | Some v \<Rightarrow> v)"
| "py_get _ key dflt = Inl AttributeError"

text \<open>
  \<open>obj[key]\<close> with a string key: a dictionary raises \<open>KeyError\<close> when the key is missing;
  a list or a string wants an integer index, and the other values are not subscriptable.
\<close>

fun py_getitem :: "json \<Rightarrow> string \<Rightarrow> exn + json" where
  "py_getitem (JObj kvs) key = (case map_of kvs key of None \<Rightarrow> Inl KeyError | Some v \<Rightarrow> Inr v)"
| "py_getitem _ key = Inl TypeError"

text \<open>\<open>len(obj)\<close>: defined on lists, strings and dictionaries.\<close>

fun py_len :: "json \<Rightarrow> exn + nat" where
  "py_len (JArr xs) = Inr (length xs)"
| "py_len (JStr s) = Inr (length s)"
| "py_len (JObj kvs) = Inr (length kvs)"
| "py_len _ = Inl TypeError"

text \<open>Iteration (\<open>for x in obj\<close>): a list gives its items, a string its characters, a
  dictionary its keys; nothing else is iterable.\<close>

fun py_iter :: "json \<Rightarrow> exn + json list" where
  "py_iter (JArr xs) = Inr xs"
| "py_iter (JStr s) = Inr (map (\<lambda>c. JStr [c]) s)"
| "py_iter (JObj kvs) = Inr (map (\<lambda>kv. JStr (fst kv)) kvs)"
| "py_iter _ = Inl TypeError"

text \<open>The numeric value of a Python number; \<open>bool\<close> is a subclass of \<open>int\<close>.\<close>

fun py_num :: "json \<Rightarrow> real option" where
  "py_num (JInt i) = Some (of_int i)"
| "py_num (JFloat r) = Some r"
| "py_num (JBool b) = Some (of_bool b)"
| "py_num _ = None"

text \<open>\<open>v > n\<close> and \<open>v < n\<close> against an integer literal: ordering a non-number against an
  \<open>int\<close> raises \<open>TypeError\<close>.\<close>

definition py_gt :: "json \<Rightarrow> int \<Rightarrow> exn + bool" where
  "py_gt v n = (case py_num v of None \<Rightarrow> Inl TypeError | Some x \<Rightarrow> Inr (x > of_int n))"

definition py_lt :: "json \<Rightarrow> int \<Rightarrow> exn + bool" where
  "py_lt v n = (case py_num v of None \<Rightarrow> Inl TypeError | Some x \<Rightarrow> Inr (x < of_int n))"

text \<open>
  Python's \<open>==\<close> on these values: numbers (booleans included) are equal when their values
  are, strings and \<open>None\<close> only to themselves, lists item by item, dictionaries when they have
  the same keys and equal values under every key, in whatever order the keys were inserted.
\<close>

fun py_eq :: "json \<Rightarrow> json \<Rightarrow> bool" where
  "py_eq JNull JNull = True"
| "py_eq (JStr s) (JStr t) = (s = t)"
| "py_eq (JArr xs) (JArr ys) = list_all2 py_eq xs ys"
| "py_eq (JObj kvs) (JObj kws) =
     (fst ` set kvs = fst ` set kws \<and>
      (\<forall>(k, v) \<in> set kvs. map_of kvs k = Some v \<longrightarrow>
         (case map_of kws k of None \<Rightarrow> False | Some w \<Rightarrow> py_eq v w)))"
| "py_eq a b = (case (py_num a, py_num b) of (Some x, Some y) \<Rightarrow> x = y | _ \<Rightarrow> False)"

section \<open>utils.py: the response cache\<close>

text \<open>
  \<open>time.time()\<close> returns a double, and line 83 subtracts two of them: the machine returns
  the exact difference rounded to the nearest double, a tie going to the even significand.
  A clock reading is the real number the double denotes. Every finite double is a whole
  multiple of \<open>1 / 2 ^ 1074\<close>, so the difference of two doubles, scaled by \<open>2 ^ 1074\<close>, is an
  integer, and rounding it to a double is rounding that integer to 53 significant bits.
\<close>

definition round_to_53 :: "int \<Rightarrow> int" where
  "round_to_53 n =
     (let k = bitlen \<bar>n\<bar> - 53 in
      if k \<le> 0 then n
      else let q = 2 ^ nat k; z = n div q; r = n mod q
           in (if 2 * r < q then z else if q < 2 * r then z + 1
               else if even z then z else z + 1) * q)"

text \<open>
  The subtraction of line 83. On reals that are not doubles the floor makes the scaled
  difference an integer first. A result beyond the largest double would be an infinity in
  Python; it is the large number here, which compares with 3600 in the same way.
\<close>

definition float_sub :: "real \<Rightarrow> real \<Rightarrow> real" where
  "float_sub a b = real_of_int (round_to_53 \<lfloor>(a - b) * 2 ^ 1074\<rfloor>) / 2 ^ 1074"

text \<open>
  \<open>api_cache\<close> is a module-level dictionary from key to \<open>{'data', 'timestamp'}\<close>. The clock
  reading \<open>time.time()\<close> is an argument \<open>now\<close> of both operations, in seconds.
\<close>

record cache_entry =
  data :: json
  timestamp :: real

type_synonym api_cache = "string \<rightharpoonup> cache_entry"

definition CACHE_DURATION :: real where
  "CACHE_DURATION = 3600"

definition get_from_cache :: "real \<Rightarrow> api_cache \<Rightarrow> string \<Rightarrow> json" where
  "get_from_cache now cache key =
     (case cache key of
        None \<Rightarrow> JNull
      | Some entry \<Rightarrow>
          if float_sub now (timestamp entry) < CACHE_DURATION then data entry else JNull)"

definition set_in_cache :: "real \<Rightarrow> api_cache \<Rightarrow> string \<Rightarrow> json \<Rightarrow> api_cache" where
  "set_in_cache now cache key d = cache(key \<mapsto> \<lparr>data = d, timestamp = now\<rparr>)"

section \<open>utils.py: difficulty\<close>

definition calculate_difficulty :: "json \<Rightarrow> exn + string" where
  "calculate_difficulty recipe =
     bind_exn (py_get recipe ''readyInMinutes'' (JInt 0)) (\<lambda>cooking_time.
     bind_exn (py_get recipe ''extendedIngredients'' (JArr [])) (\<lambda>ingredients.
     bind_exn (py_len ingredients) (\<lambda>ingredient_count.
     bind_exn (py_gt cooking_time 60) (\<lambda>over60.
       if over60 \<or> ingredient_count > 15 then Inr ''Hard''
       else bind_exn (py_gt cooking_time 30) (\<lambda>over30.
         if over30 \<or> ingredient_count > 10 then Inr ''Medium''
         else Inr ''Easy'')))))"

section \<open>utils.py: nutrition summary\<close>

fun map_exn :: "('a \<Rightarrow> exn + 'b) \<Rightarrow> 'a list \<Rightarrow> exn + 'b list" where
  "map_exn f [] = Inr []"
| "map_exn f (x # xs) = bind_exn (f x) (\<lambda>y. bind_exn (map_exn f xs) (\<lambda>ys. Inr (y # ys)))"

text \<open>Lists and dictionaries cannot be dictionary keys.\<close>

fun hashable :: "json \<Rightarrow> bool" where
  "hashable (JArr xs) = False"
| "hashable (JObj kvs) = False"
| "hashable _ = True"

text \<open>
  Line 38 builds \<open>{n["name"]: (n["amount"], n["unit"]) for n in nutrition.get("nutrients", [])}\<close>.
  One step of the comprehension evaluates the key, then the two components of the value, then
  stores the pair, which hashes the key.
\<close>

definition nutrient_entry :: "json \<Rightarrow> exn + json \<times> json \<times> json" where
  "nutrient_entry n =
     bind_exn (py_getitem n ''name'') (\<lambda>name.
     bind_exn (py_getitem n ''amount'') (\<lambda>amount.
     bind_exn (py_getitem n ''unit'') (\<lambda>unit.
       if hashable name then Inr (name, amount, unit) else Inl TypeError)))"

text \<open>The dictionary \<open>nutrients\<close>, kept as the list of the stored pairs in the order stored.\<close>

definition nutrients_of :: "json \<Rightarrow> exn + (json \<times> json \<times> json) list" where
  "nutrients_of nutrition =
     bind_exn (py_get nutrition ''nutrients'' (JArr [])) (\<lambda>listed.
     bind_exn (py_iter listed) (\<lambda>items. map_exn nutrient_entry items))"

text \<open>
  \<open>nutrients.get(name, default)\<close> for a string \<open>name\<close>: a later pair stored under a key
  replaces an earlier one, and only a string equals a string, so the value read is that of the
  last pair whose key is this string.
\<close>

definition nutrients_get ::
    "(json \<times> json \<times> json) list \<Rightarrow> string \<Rightarrow> json \<times> json \<Rightarrow> json \<times> json" where
  "nutrients_get nutrients name dflt =
     (case filter (\<lambda>entry. fst entry = JStr name) nutrients of
        [] \<Rightarrow> dflt
      | e # es \<Rightarrow> snd (last (e # es)))"

text \<open>The two symbols in front of the health metrics (U+2705, and U+26A0 followed by
  U+FE0F), which are beyond the 256 codes: they are written as their UTF-8 bytes. These
  strings are only returned, nothing measures or compares them.\<close>

definition check_mark :: string where
  "check_mark = [CHR 0xE2, CHR 0x9C, CHR 0x85]"

definition warning_sign :: string where
  "warning_sign = [CHR 0xE2, CHR 0x9A, CHR 0xA0, CHR 0xEF, CHR 0xB8, CHR 0x8F]"

record nutrition_info =
  calories :: string
  health_metrics :: "string list"
  nutrition_score :: int

text \<open>
  \<open>py_str\<close> stands for Python's \<open>str()\<close>, which the f-string of the \<open>calories\<close> field
  applies to the amount and the unit.
\<close>

definition parse_nutritional_info :: "(json \<Rightarrow> string) \<Rightarrow> json \<Rightarrow> exn + nutrition_info" where
  "parse_nutritional_info py_str nutrition =
     bind_exn (nutrients_of nutrition) (\<lambda>nutrients.
       let calories = nutrients_get nutrients ''Calories'' (JInt 0, JStr ''kcal'');
           protein = nutrients_get nutrients ''Protein'' (JInt 0, JStr ''g'');
           sodium = nutrients_get nutrients ''Sodium'' (JInt 0, JStr ''mg'');
           vitamin_a = nutrients_get nutrients ''Vitamin A'' (JInt 0, JStr ''% of Daily Needs'')
       in
       bind_exn (py_gt (fst protein) 25) (\<lambda>high_protein.
       bind_exn (py_gt (fst vitamin_a) 20) (\<lambda>good_vitamin_a.
       bind_exn (py_gt (fst sodium) 1000) (\<lambda>high_sodium.
       bind_exn (py_lt (fst sodium) 500) (\<lambda>low_sodium.
       bind_exn (py_lt (fst calories) 500) (\<lambda>low_calories.
         let metrics = (if high_protein then [check_mark @ '' High in Protein''] else [])
               @ (if good_vitamin_a then [check_mark @ '' Good source of Vitamin A''] else [])
               @ (if high_sodium then [warning_sign @ '' High in Sodium''] else []);
             score = 50;
             score = (if high_protein then score + 15 else score);
             score = (if good_vitamin_a then score + 15 else score);
             score = (if low_sodium then score + 20 else score);
             score = (if low_calories then score + 10 else score)
         in Inr \<lparr>calories = py_str (fst calories) @ '' '' @ py_str (snd calories),
                 health_metrics = metrics,
                 nutrition_score = min score 100\<rparr>))))))"

section \<open>utils.py: the favorites file\<close>

text \<open>
  The state of \<open>config.FAVORITES_FILE\<close> is \<open>None\<close> when the file does not exist and its
  bytes otherwise. The file is opened in text mode, so \<open>json.load(f)\<close> first reads the text,
  which decodes the bytes, and then parses it. The decoding is that of UTF-8, the default of
  \<open>open\<close> on Linux and macOS: a byte sequence is text when it is well-formed UTF-8 (no
  overlong form, no surrogate, nothing above U+10FFFF), and \<open>UnicodeDecodeError\<close> is raised
  otherwise. That class is not one the program names.
\<close>

definition byte_in :: "nat \<Rightarrow> nat \<Rightarrow> char \<Rightarrow> bool" where
  "byte_in lo hi c = (lo \<le> of_char c \<and> of_char c \<le> (hi :: nat))"

fun utf8_valid :: "string \<Rightarrow> bool" where
  "utf8_valid [] = True"
| "utf8_valid (c # cs) =
     (if byte_in 0x00 0x7F c then utf8_valid cs
      else if byte_in 0xC2 0xDF c then
        (case cs of
           c1 # rest \<Rightarrow> byte_in 0x80 0xBF c1 \<and> utf8_valid rest
         | _ \<Rightarrow> False)
      else if byte_in 0xE0 0xEF c then
        (case cs of
           c1 # c2 # rest \<Rightarrow>
             (if byte_in 0xE0 0xE0 c then byte_in 0xA0 0xBF c1
              else if byte_in 0xED 0xED c then byte_in 0x80 0x9F c1
              else byte_in 0x80 0xBF c1)
             \<and> byte_in 0x80 0xBF c2 \<and> utf8_valid rest
         | _ \<Rightarrow> False)
      else if byte_in 0xF0 0xF4 c then
        (case cs of
           c1 # c2 # c3 # rest \<Rightarrow>
             (if byte_in 0xF0 0xF0 c then byte_in 0x90 0xBF c1
              else if byte_in 0xF4 0xF4 c then byte_in 0x80 0x8F c1
              else byte_in 0x80 0xBF c1)
             \<and> byte_in 0x80 0xBF c2 \<and> byte_in 0x80 0xBF c3 \<and> utf8_valid rest
         | _ \<Rightarrow> False)
      else False)"

text \<open>\<open>f.read()\<close>: the text stays written as the bytes that encode it.\<close>

definition read_text :: "string \<Rightarrow> exn + string" where
  "read_text bytes =
     (if utf8_valid bytes then Inr bytes else Inl (OtherError ''UnicodeDecodeError''))"

text \<open>
  \<open>json_load\<close> stands for the parsing that \<open>json.load\<close> does on the text it has read, and
  \<open>json_dump\<close> for the text that \<open>json.dump(\<dots>, indent=4)\<close> writes. Lines 70 to 73 catch
  \<open>json.JSONDecodeError\<close> only.
\<close>

definition load_favorites :: "(string \<Rightarrow> exn + json) \<Rightarrow> string option \<Rightarrow> exn + json" where
  "load_favorites json_load file =
     (case file of
        None \<Rightarrow> Inr (JArr [])
      | Some bytes \<Rightarrow>
          (case bind_exn (read_text bytes) json_load of
             Inr decoded \<Rightarrow> Inr decoded
           | Inl JSONDecodeError \<Rightarrow> Inr (JArr [])
           | Inl other \<Rightarrow> Inl other))"

text \<open>Opening with mode \<open>'w'\<close> creates or truncates the file, so the old state is not read.\<close>

definition save_favorites :: "(json \<Rightarrow> string) \<Rightarrow> string option \<Rightarrow> json \<Rightarrow> string option" where
  "save_favorites json_dump file favorites = Some (json_dump favorites)"

section \<open>main.py: the favorites toggle of the details view\<close>

text \<open>Line 152: \<open>any(fav['id'] == recipe['id'] for fav in favorites)\<close>, which stops at the
  first record that matches.\<close>

fun any_same_id :: "json list \<Rightarrow> json \<Rightarrow> exn + bool" where
  "any_same_id [] recipe = Inr False"
| "any_same_id (fav # favs) recipe =
     bind_exn (py_getitem fav ''id'') (\<lambda>fav_id.
     bind_exn (py_getitem recipe ''id'') (\<lambda>recipe_id.
       if py_eq fav_id recipe_id then Inr True else any_same_id favs recipe))"

text \<open>Line 210: \<open>[fav for fav in favorites if fav['id'] != recipe['id']]\<close>.\<close>

fun remove_by_id :: "json list \<Rightarrow> json \<Rightarrow> exn + json list" where
  "remove_by_id [] recipe = Inr []"
| "remove_by_id (fav # favs) recipe =
     bind_exn (py_getitem fav ''id'') (\<lambda>fav_id.
     bind_exn (py_getitem recipe ''id'') (\<lambda>recipe_id.
     bind_exn (remove_by_id favs recipe) (\<lambda>kept.
       Inr (if \<not> py_eq fav_id recipe_id then fav # kept else kept))))"

text \<open>\<open>favorites.append(recipe)\<close>: only a list has the method.\<close>

fun py_append :: "json \<Rightarrow> json \<Rightarrow> exn + json" where
  "py_append (JArr xs) x = Inr (JArr (xs @ [x]))"
| "py_append _ x = Inl AttributeError"

text \<open>
  The local variables \<open>favorites\<close> and \<open>is_favorite\<close> of \<open>view_recipe_details\<close>, together
  with the favorites file and the cache dictionary that the function writes to.
\<close>

record view_state =
  favorites :: json
  is_favorite :: bool
  favorites_file :: "string option"
  api_cache :: api_cache

text \<open>Lines 151 and 152, on entering the view.\<close>

definition view_recipe_details_enter ::
    "(string \<Rightarrow> exn + json) \<Rightarrow> string option \<Rightarrow> api_cache \<Rightarrow> json \<Rightarrow> exn + view_state" where
  "view_recipe_details_enter json_load file cache recipe =
     bind_exn (load_favorites json_load file) (\<lambda>loaded.
     bind_exn (py_iter loaded) (\<lambda>favs.
     bind_exn (any_same_id favs recipe) (\<lambda>found.
       Inr \<lparr>favorites = loaded, is_favorite = found, favorites_file = file, api_cache = cache\<rparr>)))"

text \<open>The new value of \<open>favorites\<close> when the user chooses 1 (line 210 or line 217).\<close>

definition toggled_favorites :: "bool \<Rightarrow> json \<Rightarrow> json \<Rightarrow> exn + json" where
  "toggled_favorites is_fav favs recipe =
     (if is_fav
      then bind_exn (py_iter favs) (\<lambda>items.
           bind_exn (remove_by_id items recipe) (\<lambda>kept. Inr (JArr kept)))
      else py_append favs recipe)"

text \<open>
  Lines 208 to 220, the whole branch of choice 1: the list is rebuilt or extended, a removal
  also drops the cache entry \<open>details_<id>\<close> when there is one, the list is saved, and the
  flag is flipped.
\<close>

definition toggle_favorite ::
    "(json \<Rightarrow> string) \<Rightarrow> (json \<Rightarrow> string) \<Rightarrow> json \<Rightarrow> view_state \<Rightarrow> exn + view_state" where
  "toggle_favorite py_str json_dump recipe st =
     bind_exn (toggled_favorites (is_favorite st) (favorites st) recipe) (\<lambda>favs'.
     bind_exn (if is_favorite st
               then bind_exn (py_getitem recipe ''id'') (\<lambda>recipe_id.
                      Inr ((api_cache st)((''details_'' @ py_str recipe_id) := None)))
               else Inr (api_cache st)) (\<lambda>cache'.
       Inr \<lparr>favorites = favs',
            is_favorite = (\<not> is_favorite st),
            favorites_file = save_favorites json_dump (favorites_file st) favs',
            api_cache = cache'\<rparr>))"

text \<open>
  The vocabulary of the statements about favorites: the id of a record (\<open>fav['id']\<close>),
  whether a record has one, whether two records have equal ids, and whether no two records
  of a list do.
\<close>

definition record_id :: "json \<Rightarrow> exn + json" where
  "record_id r = py_getitem r ''id''"

definition has_id :: "json \<Rightarrow> bool" where
  "has_id r = (case record_id r of Inl e \<Rightarrow> False | Inr v \<Rightarrow> True)"

definition same_id :: "json \<Rightarrow> json \<Rightarrow> bool" where
  "same_id a b = (case (record_id a, record_id b) of (Inr x, Inr y) \<Rightarrow> py_eq x y | _ \<Rightarrow> False)"

fun unique_ids :: "json list \<Rightarrow> bool" where
  "unique_ids [] = True"
| "unique_ids (f # fs) = ((\<forall>g \<in> set fs. \<not> same_id f g) \<and> unique_ids fs)"

text \<open>
  A history of toggles, one recipe after the other, each on the list the previous one saved:
  the flag of each is the one line 152 computes for the list it starts from.
\<close>

fun toggle_all :: "json list \<Rightarrow> json list \<Rightarrow> exn + json list" where
  "toggle_all favs [] = Inr favs"
| "toggle_all favs (recipe # recipes) =
     bind_exn (any_same_id favs recipe) (\<lambda>found.
     bind_exn (toggled_favorites found (JArr favs) recipe) (\<lambda>favs'.
     bind_exn (py_iter favs') (\<lambda>items. toggle_all items recipes)))"

section \<open>main.py: the cache key of an ingredients search\<close>

text \<open>\<open>sep.join(items)\<close>\<close>

fun py_join :: "string \<Rightarrow> string list \<Rightarrow> string" where
  "py_join sep [] = []"
| "py_join sep [x] = x"
| "py_join sep (x # y # ys) = x @ sep @ py_join sep (y # ys)"

text \<open>
  Line 73: \<open>f"ingredients_{','.join(sorted(ingredients))}"\<close>, for the list \<open>ingredients\<close>
  of line 70. \<open>sorted\<close> returns the items in ascending order; strings that compare equal
  are the same string, so the result is the sorted list whatever the sorting method.
\<close>

definition ingredients_cache_key :: "string list \<Rightarrow> string" where
  "ingredients_cache_key ingredients = ''ingredients_'' @ py_join '','' (sort ingredients)"

section \<open>api_client.py\<close>

text \<open>
  What the program reads from a \<open>requests\<close> response: the status code, the text of the
  \<open>HTTPError\<close> that \<open>raise_for_status()\<close> raises for it, and what \<open>json()\<close> does, which is
  to return the parsed body or to raise.
\<close>

record response =
  status_code :: int
  http_error :: string
  json_method :: "exn + json"

text \<open>\<open>raise_for_status()\<close> raises \<open>HTTPError\<close>, a \<open>RequestException\<close>, for the client
  and server error codes.\<close>

definition raise_for_status :: "response \<Rightarrow> exn + unit" where
  "raise_for_status r =
     (if 400 \<le> status_code r \<and> status_code r < 600
      then Inl (RequestException (http_error r)) else Inr ())"

definition BASE_URL :: string where
  "BASE_URL = ''https://api.spoonacular.com''"

text \<open>
  The \<open>try\<close> block that the three operations share word for word. \<open>requests_get\<close> is
  \<open>requests.get\<close>, the network included; the result is the list of printed lines and the
  value returned, \<open>JNull\<close> for \<open>None\<close>, or the exception that leaves the function.
\<close>

definition guarded_get ::
    "(string \<Rightarrow> (string \<times> json) list \<Rightarrow> exn + response) \<Rightarrow> string \<Rightarrow> (string \<times> json) list
      \<Rightarrow> exn + string list \<times> json" where
  "guarded_get requests_get url params =
     (case bind_exn (requests_get url params) (\<lambda>response.
           bind_exn (raise_for_status response) (\<lambda>_. json_method response)) of
        Inr body \<Rightarrow> Inr ([], body)
      | Inl (RequestException e) \<Rightarrow> Inr ([''Error connecting to Spoonacular API: '' @ e], JNull)
      | Inl other \<Rightarrow> Inl other)"

text \<open>\<open>api_key\<close> is \<open>config.API_KEY\<close>; \<open>number\<close> defaults to 7.\<close>

definition search_recipes_by_ingredients ::
    "(string \<Rightarrow> (string \<times> json) list \<Rightarrow> exn + response) \<Rightarrow> string \<Rightarrow> string list \<Rightarrow> int
      \<Rightarrow> exn + string list \<times> json" where
  "search_recipes_by_ingredients requests_get api_key ingredients number =
     guarded_get requests_get (BASE_URL @ ''/recipes/findByIngredients'')
       [(''ingredients'', JStr (py_join '','' ingredients)),
        (''number'', JInt number),
        (''apiKey'', JStr api_key)]"

text \<open>\<open>meal_type\<close> defaults to \<open>None\<close> and \<open>number\<close> to 5; \<open>None\<close> and the empty string
  are the false values of \<open>if meal_type\<close>.\<close>

definition find_recipes_by_cuisine ::
    "(string \<Rightarrow> (string \<times> json) list \<Rightarrow> exn + response) \<Rightarrow> string \<Rightarrow> string \<Rightarrow> string option
      \<Rightarrow> int \<Rightarrow> exn + string list \<times> json" where
  "find_recipes_by_cuisine requests_get api_key cuisine meal_type number =
     guarded_get requests_get (BASE_URL @ ''/recipes/complexSearch'')
       ([(''cuisine'', JStr cuisine),
         (''number'', JInt number),
         (''apiKey'', JStr api_key)]
        @ (case meal_type of
             None \<Rightarrow> []
           | Some t \<Rightarrow> if t \<noteq> [] then [(''type'', JStr t)] else []))"

definition get_recipe_details ::
    "(string \<Rightarrow> (string \<times> json) list \<Rightarrow> exn + response) \<Rightarrow> (json \<Rightarrow> string) \<Rightarrow> string \<Rightarrow> json
      \<Rightarrow> exn + string list \<times> json" where
  "get_recipe_details requests_get py_str api_key recipe_id =
     guarded_get requests_get (BASE_URL @ ''/recipes/'' @ py_str recipe_id @ ''/information'')
       [(''includeNutrition'', JBool True),
        (''apiKey'', JStr api_key)]"

section \<open>Basic facts\<close>

lemma bind_exn_simps [simp]:
  "bind_exn (Inl e) f = Inl e"
  "bind_exn (Inr x) f = f x"
  by (simp_all add: bind_exn_def)

section \<open>Properties of the cache\<close>

lemma round_to_53_between:
  assumes "0 < bitlen \<bar>n\<bar> - 53"
  shows "(n div 2 ^ nat (bitlen \<bar>n\<bar> - 53)) * 2 ^ nat (bitlen \<bar>n\<bar> - 53) \<le> round_to_53 n"
    and "round_to_53 n \<le> (n div 2 ^ nat (bitlen \<bar>n\<bar> - 53) + 1) * 2 ^ nat (bitlen \<bar>n\<bar> - 53)"
    and "n mod 2 ^ nat (bitlen \<bar>n\<bar> - 53) = 0 \<Longrightarrow> round_to_53 n = n"
  using assms by (auto simp: round_to_53_def Let_def mult_right_mono)

lemma round_to_53_small: "bitlen \<bar>n\<bar> - 53 \<le> 0 \<Longrightarrow> round_to_53 n = n"
  by (simp add: round_to_53_def)

lemma leading_quotient:
  assumes "0 < n" and k: "0 < bitlen n - 53"
  shows "2 ^ 52 * 2 ^ nat (bitlen n - 53) \<le> n"
proof -
  have "2 ^ nat (bitlen n - 1) \<le> n" using bitlen_bounds [OF assms(1)] by simp
  moreover have "nat (bitlen n - 1) = 52 + nat (bitlen n - 53)" using k by simp
  ultimately show ?thesis by (simp add: power_add)
qed

lemma le_div_of_mult_le:
  fixes a q n :: int
  assumes "0 < q" and "a * q \<le> n"
  shows "a \<le> n div q"
proof -
  have "(a * q) div q \<le> n div q" using assms by (intro zdiv_mono1) simp_all
  then show ?thesis using assms(1) by simp
qed

lemma round_lower:
  assumes c: "0 < c" "c < 2 ^ 53" and le: "c * 2 ^ j \<le> n"
  shows "c * 2 ^ j \<le> round_to_53 n"
proof (cases "bitlen \<bar>n\<bar> - 53 \<le> 0")
  case True
  then show ?thesis using le by (simp add: round_to_53_small)
next
  case False
  define k where "k = nat (bitlen \<bar>n\<bar> - 53)"
  define q :: int where "q = 2 ^ k"
  have pos: "0 < n" using c le by (smt (verit) mult_pos_pos zero_less_power)
  then have abs: "\<bar>n\<bar> = n" by simp
  have kpos: "0 < bitlen n - 53" using False abs by simp
  have q: "0 < q" by (simp add: q_def)
  have low: "(n div q) * q \<le> round_to_53 n"
    using round_to_53_between(1) [of n] False by (simp add: q_def k_def)
  have "c * 2 ^ j \<le> (n div q) * q"
  proof (cases "k \<le> j")
    case True
    then have "c * 2 ^ j = (c * 2 ^ (j - k)) * q"
      by (simp add: q_def power_add [symmetric])
    with le have "(c * 2 ^ (j - k)) * q \<le> n" by simp
    then have "c * 2 ^ (j - k) \<le> n div q"
      using q by (intro le_div_of_mult_le)
    then have "(c * 2 ^ (j - k)) * q \<le> (n div q) * q"
      using q by (simp add: mult_right_mono)
    with \<open>c * 2 ^ j = (c * 2 ^ (j - k)) * q\<close> show ?thesis by (simp only:)
  next
    case False
    then have "j + 1 \<le> k" by simp
    have "c * 2 ^ j \<le> 2 ^ 53 * 2 ^ j" using c by simp
    also have "\<dots> = 2 ^ 52 * 2 ^ (j + 1)" by simp
    also have "\<dots> \<le> 2 ^ 52 * (2 ^ k :: int)"
      using \<open>j + 1 \<le> k\<close> by (simp add: power_increasing del: power_Suc)
    finally have a: "c * 2 ^ j \<le> 2 ^ 52 * q" by (simp add: q_def)
    have "2 ^ 52 * q \<le> n" using leading_quotient [OF pos kpos] abs by (simp add: q_def k_def)
    then have "2 ^ 52 \<le> n div q"
      using q by (intro le_div_of_mult_le)
    then have "2 ^ 52 * q \<le> (n div q) * q" using q by (simp add: mult_right_mono)
    with a show ?thesis by simp
  qed
  with low show ?thesis by simp
qed


lemma round_upper:
  assumes c: "0 < c" "c < 2 ^ 53" and le: "n \<le> c * 2 ^ j"
  shows "round_to_53 n \<le> c * 2 ^ j"
proof (cases "bitlen \<bar>n\<bar> - 53 \<le> 0")
  case True
  then show ?thesis using le by (simp add: round_to_53_small)
next
  case False
  define k where "k = nat (bitlen \<bar>n\<bar> - 53)"
  define q :: int where "q = 2 ^ k"
  have q: "0 < q" by (simp add: q_def)
  have up: "round_to_53 n \<le> (n div q + 1) * q"
    using round_to_53_between(2) [of n] False by (simp add: q_def k_def)
  have exact: "n mod q = 0 \<Longrightarrow> round_to_53 n = n"
    using round_to_53_between(3) [of n] False by (simp add: q_def k_def)
  have target: "0 < c * 2 ^ j" using c by simp
  show ?thesis
  proof (cases "n < 0")
    case True
    then have "n div q < 0" using q by (simp add: div_neg_pos_less0)
    then have "(n div q + 1) * q \<le> 0" using q by (simp add: mult_le_0_iff)
    with up target show ?thesis by linarith
  next
    case nonneg: False
    have "n \<noteq> 0" using False by auto
    with nonneg have pos: "0 < n" by simp
    then have abs: "\<bar>n\<bar> = n" by simp
    have kpos: "0 < bitlen n - 53" using False abs by simp
    have lead: "2 ^ 52 * q \<le> n"
      using leading_quotient [OF pos kpos] abs by (simp add: q_def k_def)
    have "k \<le> j"
    proof (rule ccontr)
      assume "\<not> k \<le> j"
      then have "j + 1 \<le> k" by simp
      have "c * 2 ^ j < 2 ^ 53 * 2 ^ j" using c by simp
      also have "\<dots> = 2 ^ 52 * 2 ^ (j + 1)" by simp
      also have "\<dots> \<le> 2 ^ 52 * (2 ^ k :: int)"
        using \<open>j + 1 \<le> k\<close> by (simp add: power_increasing del: power_Suc)
      finally have "c * 2 ^ j < 2 ^ 52 * q" by (simp add: q_def)
      with lead le show False by linarith
    qed
    then have split: "c * 2 ^ j = (c * 2 ^ (j - k)) * q"
      by (simp add: q_def power_add [symmetric])
    define a where "a = c * 2 ^ (j - k)"
    have n_le: "n \<le> a * q" using le split by (simp add: a_def)
    have "n div q \<le> a"
    proof -
      have "n div q \<le> (a * q) div q" using n_le q by (intro zdiv_mono1) simp_all
      then show ?thesis using q by simp
    qed
    then consider "n div q + 1 \<le> a" | "n div q = a" by linarith
    then have "round_to_53 n \<le> a * q"
    proof cases
      case 1
      then have "(n div q + 1) * q \<le> a * q" using q by (simp add: mult_right_mono)
      with up show ?thesis by simp
    next
      case 2
      have "n = (n div q) * q + n mod q" by simp
      with 2 n_le have "n mod q \<le> 0" by simp
      moreover have "0 \<le> n mod q" using q by simp
      ultimately have "n mod q = 0" by simp
      then have "round_to_53 n = n" by (rule exact)
      with n_le show ?thesis by simp
    qed
    with split show ?thesis by (simp only: a_def)
  qed
qed

lemma float_sub_ge_3600:
  assumes "3600 \<le> a - b"
  shows "3600 \<le> float_sub a b"
proof -
  have "real_of_int (225 * 2 ^ 1078) = 3600 * 2 ^ 1074" by simp
  also have "\<dots> \<le> (a - b) * 2 ^ 1074" using assms by simp
  finally have "225 * 2 ^ 1078 \<le> \<lfloor>(a - b) * 2 ^ 1074\<rfloor>" by (simp only: le_floor_iff)
  then have "225 * 2 ^ 1078 \<le> round_to_53 \<lfloor>(a - b) * 2 ^ 1074\<rfloor>"
    by (intro round_lower) simp_all
  then have "real_of_int (225 * 2 ^ 1078) \<le> real_of_int (round_to_53 \<lfloor>(a - b) * 2 ^ 1074\<rfloor>)"
    by (simp only: of_int_le_iff)
  then show ?thesis by (simp add: float_sub_def field_simps)
qed

lemma float_sub_below_3600:
  assumes "a - b \<le> 3600 - 1 / 2 ^ 41"
  shows "float_sub a b \<le> 3600 - 1 / 2 ^ 41"
proof -
  have "(a - b) * 2 ^ 1074 \<le> (3600 - 1 / 2 ^ 41) * 2 ^ 1074" using assms by simp
  also have "\<dots> = real_of_int (7916483719987199 * 2 ^ 1033)" by simp
  finally have "\<lfloor>(a - b) * 2 ^ 1074\<rfloor> \<le> 7916483719987199 * 2 ^ 1033"
    by (simp only: floor_le_iff)
  then have "round_to_53 \<lfloor>(a - b) * 2 ^ 1074\<rfloor> \<le> 7916483719987199 * 2 ^ 1033"
    by (intro round_upper) simp_all
  then have "real_of_int (round_to_53 \<lfloor>(a - b) * 2 ^ 1074\<rfloor>)
      \<le> real_of_int (7916483719987199 * 2 ^ 1033)"
    by (simp only: of_int_le_iff)
  also have "real_of_int (7916483719987199 * 2 ^ 1033) = (3600 - 1 / 2 ^ 41) * 2 ^ 1074" by simp
  finally show ?thesis by (simp add: float_sub_def field_simps)
qed

lemma get_after_set:
  "get_from_cache t (set_in_cache s c k d) k = (if float_sub t s < 3600 then d else JNull)"
  by (simp add: get_from_cache_def set_in_cache_def CACHE_DURATION_def)

lemma float_sub_example:
  "float_sub (7916703622312755 / 2 ^ 41) (3602879701896397 / 2 ^ 55) = 3600"
proof -
  have scaled: "(7916703622312755 / 2 ^ 41 - 3602879701896397 / 2 ^ 55) * 2 ^ 1074
      = real_of_int (129703669268270281523 * 2 ^ 1019)"
    by simp
  have floor_scaled:
    "\<lfloor>(7916703622312755 / 2 ^ 41 - 3602879701896397 / 2 ^ 55 :: real) * 2 ^ 1074\<rfloor>
      = 129703669268270281523 * 2 ^ 1019"
    by (simp only: scaled floor_of_int)
  have "bitlen 129703669268270281523 = 67" by code_simp
  then have bits: "bitlen \<bar>129703669268270281523 * 2 ^ 1019\<bar> = 1086"
    using bitlen_pow2 [of 129703669268270281523 1019] by simp
  have "round_to_53 (129703669268270281523 * 2 ^ 1019) = 225 * 2 ^ 1078"
    unfolding round_to_53_def bits by (simp add: Let_def)
  then show ?thesis
    unfolding float_sub_def floor_scaled by simp
qed

text \<open>
  Claim C1, as stated, fails. The doubles nearest to 0.1 and to 3600.1 are
  \<open>3602879701896397 / 2 ^ 55\<close> and \<open>7916703622312755 / 2 ^ 41\<close>. Their exact difference is below
  3600, but the difference the machine returns is 3600, so a value stored at the first clock
  reading is not returned at the second.
\<close>

theorem cache_exact_difference_counterexample:
  "(7916703622312755 / 2 ^ 41 - 3602879701896397 / 2 ^ 55 :: real) < 3600
   \<and> get_from_cache (7916703622312755 / 2 ^ 41)
        (set_in_cache (3602879701896397 / 2 ^ 55) Map.empty ''ingredients_rice'' (JArr [JInt 7]))
        ''ingredients_rice'' = JNull
   \<and> JNull \<noteq> JArr [JInt 7]"
proof -
  have "(7916703622312755 / 2 ^ 41 - 3602879701896397 / 2 ^ 55 :: real) < 3600"
    by simp
  moreover have "get_from_cache (7916703622312755 / 2 ^ 41)
        (set_in_cache (3602879701896397 / 2 ^ 55) Map.empty ''ingredients_rice'' (JArr [JInt 7]))
        ''ingredients_rice'' = JNull"
    unfolding get_after_set float_sub_example by simp
  ultimately show ?thesis by simp
qed

text \<open>
  Claim C1, amended. A value stored under a key at clock reading \<open>s\<close> is returned by a read
  of that key at clock reading \<open>t\<close> when the difference the machine computes for \<open>t - s\<close> is
  below 3600, and the read returns \<open>None\<close> when that difference is 3600 or more. The value
  is returned whenever \<open>t - s\<close> is at most \<open>3600 - 1 / 2 ^ 41\<close>, the largest double below
  3600, and \<open>None\<close> is returned whenever \<open>t - s\<close> is at least 3600. The same holds for any
  entry found in the cache with timestamp \<open>s\<close>. A key that is not in the cache reads as
  \<open>None\<close>.
\<close>

theorem cache_get_set_rounded:
  "(float_sub t s < 3600 \<longrightarrow> get_from_cache t (set_in_cache s c k d) k = d)
   \<and> (3600 \<le> float_sub t s \<longrightarrow> get_from_cache t (set_in_cache s c k d) k = JNull)
   \<and> (t - s \<le> 3600 - 1 / 2 ^ 41 \<longrightarrow> get_from_cache t (set_in_cache s c k d) k = d)
   \<and> (3600 \<le> t - s \<longrightarrow> get_from_cache t (set_in_cache s c k d) k = JNull)
   \<and> (c k = Some e \<and> float_sub t (timestamp e) < 3600 \<longrightarrow> get_from_cache t c k = data e)
   \<and> (c k = Some e \<and> 3600 \<le> float_sub t (timestamp e) \<longrightarrow> get_from_cache t c k = JNull)
   \<and> (c k = Some e \<and> t - timestamp e \<le> 3600 - 1 / 2 ^ 41 \<longrightarrow> get_from_cache t c k = data e)
   \<and> (c k = Some e \<and> 3600 \<le> t - timestamp e \<longrightarrow> get_from_cache t c k = JNull)
   \<and> (c k = None \<longrightarrow> get_from_cache t c k = JNull)"
proof -
  have below: "float_sub a b < 3600" if "a - b \<le> 3600 - 1 / 2 ^ 41" for a b
  proof -
    have "float_sub a b \<le> 3600 - 1 / 2 ^ 41" using that by (rule float_sub_below_3600)
    also have "\<dots> < (3600 :: real)" by simp
    finally show ?thesis .
  qed
  have above: "\<not> float_sub a b < 3600" if "3600 \<le> a - b" for a b
    using float_sub_ge_3600 [OF that] by simp
  show ?thesis
    using below [of t s] above [of t s] below [of t "timestamp e"] above [of t "timestamp e"]
    by (auto simp: get_from_cache_def set_in_cache_def CACHE_DURATION_def)
qed

theorem cache_get_set_rounded_witness:
  "get_from_cache 3599 (set_in_cache 0 Map.empty ''ingredients_rice'' (JArr [JInt 7])) ''ingredients_rice''
     = JArr [JInt 7]
   \<and> get_from_cache 3600 (set_in_cache 0 Map.empty ''ingredients_rice'' (JArr [JInt 7])) ''ingredients_rice''
     = JNull
   \<and> get_from_cache 10 [''k'' \<mapsto> \<lparr>data = JInt 1, timestamp = 5\<rparr>] ''k'' = JInt 1
   \<and> get_from_cache 5000 [''k'' \<mapsto> \<lparr>data = JInt 1, timestamp = 5\<rparr>] ''k'' = JNull
   \<and> get_from_cache 0 Map.empty ''k'' = JNull"
proof -
  have fresh: "float_sub 3599 0 < 3600" "float_sub 10 5 < 3600"
    using float_sub_below_3600 [of 3599 0] float_sub_below_3600 [of 10 5] by simp_all
  have stale: "3600 \<le> float_sub 3600 0" "3600 \<le> float_sub 5000 5"
    using float_sub_ge_3600 [of 3600 0] float_sub_ge_3600 [of 5000 5] by simp_all
  show ?thesis
    using fresh stale
      cache_get_set_rounded [of 3599 0 Map.empty "''ingredients_rice''" "JArr [JInt 7]"]
      cache_get_set_rounded [of 3600 0 Map.empty "''ingredients_rice''" "JArr [JInt 7]"]
      cache_get_set_rounded [of 10 0 "[''k'' \<mapsto> \<lparr>data = JInt 1, timestamp = 5\<rparr>]" "''k''" JNull
        "\<lparr>data = JInt 1, timestamp = 5\<rparr>"]
      cache_get_set_rounded [of 5000 0 "[''k'' \<mapsto> \<lparr>data = JInt 1, timestamp = 5\<rparr>]" "''k''" JNull
        "\<lparr>data = JInt 1, timestamp = 5\<rparr>"]
      cache_get_set_rounded [of 0 0 Map.empty "''k''" JNull]
    by simp
qed

section \<open>Properties of the difficulty tiers\<close>

text \<open>
  Claim C2. For a recipe whose \<open>readyInMinutes\<close>, when present, is a number and whose
  \<open>extendedIngredients\<close>, when present, has a length, \<open>calculate_difficulty\<close> returns
  "Hard" exactly when the minutes exceed 60 or the ingredient count exceeds 15, "Medium"
  exactly when it is not Hard and the minutes exceed 30 or the count exceeds 10, and "Easy"
  exactly in the remaining case. A missing \<open>readyInMinutes\<close> counts as 0 and a missing
  ingredient list as empty. In particular 70 minutes give "Hard", 40 minutes with 5
  ingredients "Medium", and 10 minutes with 3 ingredients "Easy".
\<close>

theorem calculate_difficulty_tiers:
  assumes "py_num (case map_of kvs ''readyInMinutes'' of None \<Rightarrow> JInt 0 | Some v \<Rightarrow> v) = Some minutes"
    and "py_len (case map_of kvs ''extendedIngredients'' of None \<Rightarrow> JArr [] | Some v \<Rightarrow> v) = Inr n"
  shows "(calculate_difficulty (JObj kvs) = Inr ''Hard'' \<longleftrightarrow> minutes > 60 \<or> n > 15)
    \<and> (calculate_difficulty (JObj kvs) = Inr ''Medium'' \<longleftrightarrow>
          \<not> (minutes > 60 \<or> n > 15) \<and> (minutes > 30 \<or> n > 10))
    \<and> (calculate_difficulty (JObj kvs) = Inr ''Easy'' \<longleftrightarrow>
          \<not> (minutes > 60 \<or> n > 15) \<and> \<not> (minutes > 30 \<or> n > 10))
    \<and> (map_of kvs ''readyInMinutes'' = None \<longrightarrow> minutes = 0)
    \<and> (map_of kvs ''extendedIngredients'' = None \<longrightarrow> n = 0)
    \<and> (minutes = 70 \<longrightarrow> calculate_difficulty (JObj kvs) = Inr ''Hard'')
    \<and> (minutes = 40 \<and> n = 5 \<longrightarrow> calculate_difficulty (JObj kvs) = Inr ''Medium'')
    \<and> (minutes = 10 \<and> n = 3 \<longrightarrow> calculate_difficulty (JObj kvs) = Inr ''Easy'')"
proof -
  have result: "calculate_difficulty (JObj kvs) =
      Inr (if minutes > 60 \<or> n > 15 then ''Hard''
           else if minutes > 30 \<or> n > 10 then ''Medium'' else ''Easy'')"
    using assms by (simp add: calculate_difficulty_def py_gt_def)
  have absent: "map_of kvs ''readyInMinutes'' = None \<longrightarrow> minutes = 0"
    "map_of kvs ''extendedIngredients'' = None \<longrightarrow> n = 0"
    using assms by auto
  show ?thesis unfolding result using absent by simp
qed

theorem calculate_difficulty_tiers_witness:
  "calculate_difficulty (JObj [(''title'', JStr ''Stew''), (''readyInMinutes'', JInt 70)]) = Inr ''Hard''
   \<and> calculate_difficulty (JObj [(''readyInMinutes'', JInt 40),
        (''extendedIngredients'', JArr [JNull, JNull, JNull, JNull, JNull])]) = Inr ''Medium''
   \<and> calculate_difficulty (JObj [(''readyInMinutes'', JInt 10),
        (''extendedIngredients'', JArr [JNull, JNull, JNull])]) = Inr ''Easy''"
  using calculate_difficulty_tiers [of "[(''title'', JStr ''Stew''), (''readyInMinutes'', JInt 70)]" 70 0]
    calculate_difficulty_tiers [of "[(''readyInMinutes'', JInt 40),
        (''extendedIngredients'', JArr [JNull, JNull, JNull, JNull, JNull])]" 40 5]
    calculate_difficulty_tiers [of "[(''readyInMinutes'', JInt 10),
        (''extendedIngredients'', JArr [JNull, JNull, JNull])]" 10 3]
  by simp

section \<open>Properties of the nutrition score\<close>

lemma example_nutrients:
  "nutrients_of (JObj [(''nutrients'', JArr
        [JObj [(''name'', JStr ''Protein''), (''amount'', JInt 30), (''unit'', JStr ''g'')],
         JObj [(''name'', JStr ''Vitamin A''), (''amount'', JInt 25), (''unit'', JStr ''%'')],
         JObj [(''name'', JStr ''Sodium''), (''amount'', JInt 200), (''unit'', JStr ''mg'')],
         JObj [(''name'', JStr ''Calories''), (''amount'', JInt 400), (''unit'', JStr ''kcal'')]])])
   = Inr [(JStr ''Protein'', JInt 30, JStr ''g''), (JStr ''Vitamin A'', JInt 25, JStr ''%''),
          (JStr ''Sodium'', JInt 200, JStr ''mg''), (JStr ''Calories'', JInt 400, JStr ''kcal'')]"
  by (simp add: nutrients_of_def nutrient_entry_def)

text \<open>
  Claim C3. When the nutrient list is well formed and the four amounts read from it (0 for a
  nutrient that is not listed) are numbers, \<open>parse_nutritional_info\<close> returns, and the score
  is 50, plus 15 if protein exceeds 25, plus 15 if vitamin A exceeds 20, plus 20 if sodium is
  below 500, plus 10 if calories are below 500, capped at 100. For protein 30, vitamin A 25,
  sodium 200 and calories 400 the score is 100.
\<close>

theorem nutrition_score_formula:
  assumes "nutrients_of nutrition = Inr nutrients"
    and "py_num (fst (nutrients_get nutrients ''Protein'' (JInt 0, JStr ''g''))) = Some protein"
    and "py_num (fst (nutrients_get nutrients ''Vitamin A'' (JInt 0, JStr ''% of Daily Needs''))) = Some vitamin_a"
    and "py_num (fst (nutrients_get nutrients ''Sodium'' (JInt 0, JStr ''mg''))) = Some sodium"
    and "py_num (fst (nutrients_get nutrients ''Calories'' (JInt 0, JStr ''kcal''))) = Some cal"
  shows "\<exists>info. parse_nutritional_info py_str nutrition = Inr info
      \<and> nutrition_score info =
          min 100 (50 + (if protein > 25 then 15 else 0) + (if vitamin_a > 20 then 15 else 0)
                      + (if sodium < 500 then 20 else 0) + (if cal < 500 then 10 else 0))
      \<and> (protein = 30 \<and> vitamin_a = 25 \<and> sodium = 200 \<and> cal = 400 \<longrightarrow> nutrition_score info = 100)"
  using assms by (simp add: parse_nutritional_info_def py_gt_def py_lt_def Let_def)

theorem nutrition_score_formula_witness:
  "\<exists>info. parse_nutritional_info (\<lambda>v. ''x'') (JObj [(''nutrients'', JArr
        [JObj [(''name'', JStr ''Protein''), (''amount'', JInt 30), (''unit'', JStr ''g'')],
         JObj [(''name'', JStr ''Vitamin A''), (''amount'', JInt 25), (''unit'', JStr ''%'')],
         JObj [(''name'', JStr ''Sodium''), (''amount'', JInt 200), (''unit'', JStr ''mg'')],
         JObj [(''name'', JStr ''Calories''), (''amount'', JInt 400), (''unit'', JStr ''kcal'')]])]) = Inr info
     \<and> nutrition_score info = 100"
  using nutrition_score_formula [OF example_nutrients, of 30 25 200 400 "\<lambda>v. ''x''"]
  by (simp add: nutrients_get_def)

text \<open>
  Claim C10. Whenever \<open>parse_nutritional_info\<close> returns, the score is at least 50 and at
  most 100; it does return, with a score in that range, for nutrition data with no
  \<open>nutrients\<close> entry and for data whose nutrient list is empty.
\<close>

theorem nutrition_score_range:
  "(parse_nutritional_info py_str nutrition = Inr info \<longrightarrow>
      50 \<le> nutrition_score info \<and> nutrition_score info \<le> 100)
   \<and> (\<exists>info0. parse_nutritional_info py_str (JObj []) = Inr info0
         \<and> 50 \<le> nutrition_score info0 \<and> nutrition_score info0 \<le> 100)
   \<and> (\<exists>info1. parse_nutritional_info py_str (JObj [(''nutrients'', JArr [])]) = Inr info1
         \<and> 50 \<le> nutrition_score info1 \<and> nutrition_score info1 \<le> 100)"
proof (intro conjI impI)
  assume "parse_nutritional_info py_str nutrition = Inr info"
  then show "50 \<le> nutrition_score info" "nutrition_score info \<le> 100"
    by (auto simp: parse_nutritional_info_def Let_def bind_exn_def split: sum.splits)
next
  show "\<exists>info0. parse_nutritional_info py_str (JObj []) = Inr info0
         \<and> 50 \<le> nutrition_score info0 \<and> nutrition_score info0 \<le> 100"
    by (simp add: parse_nutritional_info_def nutrients_of_def nutrients_get_def py_gt_def py_lt_def)
next
  show "\<exists>info1. parse_nutritional_info py_str (JObj [(''nutrients'', JArr [])]) = Inr info1
         \<and> 50 \<le> nutrition_score info1 \<and> nutrition_score info1 \<le> 100"
    by (simp add: parse_nutritional_info_def nutrients_of_def nutrients_get_def py_gt_def py_lt_def)
qed

theorem nutrition_score_range_witness:
  "parse_nutritional_info (\<lambda>v. ''x'') (JObj [(''nutrients'', JArr
       [JObj [(''name'', JStr ''Sodium''), (''amount'', JInt 900), (''unit'', JStr ''mg'')],
        JObj [(''name'', JStr ''Calories''), (''amount'', JFloat 650.5), (''unit'', JStr ''kcal'')]])])
     = Inr \<lparr>calories = ''x x'', health_metrics = [], nutrition_score = 50\<rparr>
   \<and> (50::int) \<le> nutrition_score \<lparr>calories = ''x x'', health_metrics = [], nutrition_score = 50\<rparr>
   \<and> nutrition_score \<lparr>calories = ''x x'', health_metrics = [], nutrition_score = 50\<rparr> \<le> (100::int)"
  using nutrition_score_range [of "\<lambda>v. ''x''" "JObj [(''nutrients'', JArr
       [JObj [(''name'', JStr ''Sodium''), (''amount'', JInt 900), (''unit'', JStr ''mg'')],
        JObj [(''name'', JStr ''Calories''), (''amount'', JFloat 650.5), (''unit'', JStr ''kcal'')]])]"
       "\<lparr>calories = ''x x'', health_metrics = [], nutrition_score = 50\<rparr>"]
  by (simp add: parse_nutritional_info_def nutrients_of_def nutrient_entry_def nutrients_get_def
      py_gt_def py_lt_def)

section \<open>Properties of the favorites file\<close>

lemma load_favorites_cases:
  "load_favorites json_load None = Inr (JArr [])
   \<and> (utf8_valid text1 \<and> json_load text1 = Inl JSONDecodeError
        \<longrightarrow> load_favorites json_load (Some text1) = Inr (JArr []))
   \<and> (utf8_valid text2 \<and> json_load text2 = Inr decoded
        \<longrightarrow> load_favorites json_load (Some text2) = Inr decoded)
   \<and> (\<not> utf8_valid bytes
        \<longrightarrow> load_favorites json_load (Some bytes) = Inl (OtherError ''UnicodeDecodeError''))"
  by (simp add: load_favorites_def read_text_def)

text \<open>
  Claim C8 says that a file whose content is not valid JSON loads as the empty list. A file
  that holds the single byte FF is not valid JSON: it is not even text. Reading it raises
  \<open>UnicodeDecodeError\<close> inside the \<open>try\<close> block, the \<open>except\<close> clause does not catch that
  class, and \<open>load_favorites\<close> raises instead of returning the empty list, whatever the
  parser would do.
\<close>

theorem load_favorites_undecodable:
  "load_favorites json_load (Some [CHR 0xFF]) = Inl (OtherError ''UnicodeDecodeError'')"
  by (simp add: load_favorites_def read_text_def byte_in_def)

section \<open>Properties of the favorites toggle\<close>

lemma py_eq_refl: "py_eq v v"
proof (induction v)
  case (JArr xs)
  then show ?case by (simp add: list_all2_same)
next
  case (JObj kvs)
  then show ?case by (auto split: option.splits)
qed simp_all

lemma any_same_id_eq:
  assumes "\<forall>f \<in> set favs. has_id f" and "has_id recipe"
  shows "any_same_id favs recipe = Inr (\<exists>f \<in> set favs. same_id f recipe)"
  using assms
  by (induction favs) (auto simp: has_id_def same_id_def record_id_def split: sum.splits)

lemma remove_by_id_eq:
  assumes "\<forall>f \<in> set favs. has_id f" and "has_id recipe"
  shows "remove_by_id favs recipe = Inr (filter (\<lambda>f. \<not> same_id f recipe) favs)"
  using assms
  by (induction favs) (auto simp: has_id_def same_id_def record_id_def split: sum.splits)

lemma same_id_refl: "has_id r \<Longrightarrow> same_id r r"
  by (auto simp: has_id_def same_id_def py_eq_refl split: sum.splits)

lemma unique_ids_filter: "unique_ids favs \<Longrightarrow> unique_ids (filter P favs)"
  by (induction favs) auto

lemma unique_ids_append:
  "unique_ids favs \<Longrightarrow> \<forall>f \<in> set favs. \<not> same_id f r \<Longrightarrow> unique_ids (favs @ [r])"
  by (induction favs) auto

lemma enter_flag_in_step:
  assumes "view_recipe_details_enter json_load file cache recipe = Inr st"
  shows "\<exists>favs. py_iter (favorites st) = Inr favs \<and> any_same_id favs recipe = Inr (is_favorite st)"
  using assms
  by (auto simp: view_recipe_details_enter_def bind_exn_def split: sum.splits)

lemma toggle_favorite_saves:
  assumes "toggle_favorite py_str json_dump recipe st = Inr st'"
  shows "toggled_favorites (is_favorite st) (favorites st) recipe = Inr (favorites st')
    \<and> favorites_file st' = Some (json_dump (favorites st'))
    \<and> is_favorite st' = (\<not> is_favorite st)"
  using assms
  by (auto simp: toggle_favorite_def save_favorites_def bind_exn_def split: sum.splits if_splits)

text \<open>
  Claim C5. Take a list of records that all have an id, a recipe that has one, and a state of
  the details view holding that list whose flag is the one line 152 computes for the list
  (\<open>enter_flag_in_step\<close>: the state on entering the view is such a state). Choosing the
  toggle then succeeds. If no record has the recipe's id, the recipe is appended at the end;
  if some record has it, every record with that id is removed, the others stay in their
  order, and the list gets shorter, so nothing is added. The remove-by-id filter applied
  when no record has the id returns the list unchanged. The new list is saved to the file,
  and the flag of the new state is again the one line 152 would compute, so the same holds
  for the next toggle.
\<close>

theorem toggle_semantics:
  assumes ids: "\<forall>f \<in> set favs. has_id f" "has_id recipe"
    and st: "favorites st = JArr favs" "any_same_id favs recipe = Inr (is_favorite st)"
  shows "\<exists>st'. toggle_favorite py_str json_dump recipe st = Inr st'
      \<and> ((\<forall>f \<in> set favs. \<not> same_id f recipe) \<longrightarrow> favorites st' = JArr (favs @ [recipe]))
      \<and> ((\<exists>f \<in> set favs. same_id f recipe) \<longrightarrow>
             favorites st' = JArr (filter (\<lambda>f. \<not> same_id f recipe) favs)
           \<and> length (filter (\<lambda>f. \<not> same_id f recipe) favs) < length favs)
      \<and> ((\<forall>f \<in> set favs. \<not> same_id f recipe) \<longrightarrow> remove_by_id favs recipe = Inr favs)
      \<and> favorites_file st' = Some (json_dump (favorites st'))
      \<and> (\<exists>favs'. favorites st' = JArr favs' \<and> (\<forall>f \<in> set favs'. has_id f)
            \<and> any_same_id favs' recipe = Inr (is_favorite st'))"
proof (cases "\<exists>f \<in> set favs. same_id f recipe")
  case True
  with st ids have flag: "is_favorite st" by (simp add: any_same_id_eq)
  from ids(2) obtain rid where rid: "py_getitem recipe ''id'' = Inr rid"
    by (auto simp: has_id_def record_id_def split: sum.splits)
  let ?kept = "filter (\<lambda>f. \<not> same_id f recipe) favs"
  have shorter: "length ?kept < length favs"
    using True by (auto intro: length_filter_less)
  have kept_ids: "\<forall>f \<in> set ?kept. has_id f" using ids by simp
  have "any_same_id ?kept recipe = Inr False"
    using kept_ids ids(2) by (simp add: any_same_id_eq)
  with True flag st ids rid shorter kept_ids show ?thesis
    by (simp add: toggle_favorite_def toggled_favorites_def remove_by_id_eq save_favorites_def)
next
  case False
  with st ids have flag: "\<not> is_favorite st" by (simp add: any_same_id_eq)
  have unchanged: "remove_by_id favs recipe = Inr favs"
    using False ids by (simp add: remove_by_id_eq)
  have new_ids: "\<forall>f \<in> set (favs @ [recipe]). has_id f" using ids by simp
  have "any_same_id (favs @ [recipe]) recipe = Inr True"
    using ids(2) by (simp add: any_same_id_eq [OF new_ids ids(2)] same_id_refl)
  with False flag st ids unchanged show ?thesis
    by (simp add: toggle_favorite_def toggled_favorites_def save_favorites_def)
qed

theorem toggle_semantics_witness:
  "(\<exists>st'. toggle_favorite (\<lambda>v. ''2'') (\<lambda>v. ''saved'') (JObj [(''id'', JInt 2), (''title'', JStr ''Soup'')])
        \<lparr>favorites = JArr [JObj [(''id'', JInt 1)]], is_favorite = False,
         favorites_file = None, api_cache = Map.empty\<rparr> = Inr st'
      \<and> favorites st' = JArr [JObj [(''id'', JInt 1)], JObj [(''id'', JInt 2), (''title'', JStr ''Soup'')]]
      \<and> favorites_file st' = Some ''saved'')
   \<and> (\<exists>st'. toggle_favorite (\<lambda>v. ''2'') (\<lambda>v. ''saved'') (JObj [(''id'', JInt 2), (''title'', JStr ''Soup'')])
        \<lparr>favorites = JArr [JObj [(''id'', JInt 1)], JObj [(''id'', JFloat 2)], JObj [(''id'', JInt 3)]],
         is_favorite = True, favorites_file = None, api_cache = Map.empty\<rparr> = Inr st'
      \<and> favorites st' = JArr [JObj [(''id'', JInt 1)], JObj [(''id'', JInt 3)]])"
  using toggle_semantics [of "[JObj [(''id'', JInt 1)]]" "JObj [(''id'', JInt 2), (''title'', JStr ''Soup'')]"
      "\<lparr>favorites = JArr [JObj [(''id'', JInt 1)]], is_favorite = False,
         favorites_file = None, api_cache = Map.empty\<rparr>" "\<lambda>v. ''2''" "\<lambda>v. ''saved''"]
    toggle_semantics [of "[JObj [(''id'', JInt 1)], JObj [(''id'', JFloat 2)], JObj [(''id'', JInt 3)]]"
      "JObj [(''id'', JInt 2), (''title'', JStr ''Soup'')]"
      "\<lparr>favorites = JArr [JObj [(''id'', JInt 1)], JObj [(''id'', JFloat 2)], JObj [(''id'', JInt 3)]],
         is_favorite = True, favorites_file = None, api_cache = Map.empty\<rparr>" "\<lambda>v. ''2''" "\<lambda>v. ''saved''"]
  by (auto simp: has_id_def record_id_def same_id_def)

lemma py_eq_sym: "py_eq a b \<Longrightarrow> py_eq b a"
proof (induction a arbitrary: b)
  case JNull
  then show ?case by (cases b) simp_all
next
  case (JBool x)
  then show ?case by (cases b) (auto split: option.splits)
next
  case (JInt x)
  then show ?case by (cases b) (auto split: option.splits)
next
  case (JFloat x)
  then show ?case by (cases b) (auto split: option.splits)
next
  case (JStr x)
  then show ?case by (cases b) (auto split: option.splits)
next
  case (JArr xs)
  show ?case
  proof (cases b)
    case (JArr ys)
    with JArr.prems have "list_all2 py_eq xs ys" by simp
    then have "list_all2 py_eq ys xs"
      using JArr.IH
      by (induction xs ys rule: list_all2_induct) auto
    with JArr show ?thesis by simp
  qed (use JArr.prems in simp_all)
next
  case (JObj kvs)
  show ?case
  proof (cases b)
    case b: (JObj kws)
    from JObj.prems b have keys: "fst ` set kvs = fst ` set kws"
      and vals: "\<And>k v. (k, v) \<in> set kvs \<Longrightarrow> map_of kvs k = Some v
          \<Longrightarrow> \<exists>w. map_of kws k = Some w \<and> py_eq v w"
      by (auto split: option.splits)
    have rev_vals: "\<exists>v. map_of kvs k = Some v \<and> py_eq w v"
      if "(k, w) \<in> set kws" "map_of kws k = Some w" for k w
    proof -
      from that(1) keys have "k \<in> fst ` set kvs" by force
      then obtain v where v: "map_of kvs k = Some v"
        by (metis domD dom_map_of_conv_image_fst)
      then have mem: "(k, v) \<in> set kvs" by (rule map_of_SomeD)
      from vals [OF mem v] that(2) have "py_eq v w" by auto
      with JObj.IH mem have "py_eq w v" by fastforce
      with v show ?thesis by simp
    qed
    have "py_eq (JObj kws) (JObj kvs)"
      unfolding py_eq.simps
    proof (intro conjI ballI)
      show "fst ` set kws = fst ` set kvs" using keys by simp
    next
      fix kw assume mem: "kw \<in> set kws"
      obtain k w where kw: "kw = (k, w)" by (cases kw)
      have "map_of kws k = Some w \<longrightarrow>
          (case map_of kvs k of None \<Rightarrow> False | Some v \<Rightarrow> py_eq w v)"
      proof
        assume "map_of kws k = Some w"
        with mem kw obtain v where "map_of kvs k = Some v" "py_eq w v"
          using rev_vals [of k w] by blast
        then show "case map_of kvs k of None \<Rightarrow> False | Some v \<Rightarrow> py_eq w v" by simp
      qed
      with kw show "case kw of (k, w) \<Rightarrow> map_of kws k = Some w \<longrightarrow>
          (case map_of kvs k of None \<Rightarrow> False | Some v \<Rightarrow> py_eq w v)"
        by simp
    qed
    with b show ?thesis by simp
  qed (use JObj.prems in simp_all)
qed

lemma same_id_sym: "same_id a b \<Longrightarrow> same_id b a"
  by (auto simp: same_id_def split: sum.splits dest: py_eq_sym)

lemma unique_ids_sorted_wrt: "unique_ids favs = sorted_wrt (\<lambda>f g. \<not> same_id f g) favs"
  by (induction favs) auto

lemma unique_ids_nth:
  "unique_ids favs \<longleftrightarrow>
     (\<forall>i j. i < length favs \<longrightarrow> j < length favs \<longrightarrow> i \<noteq> j \<longrightarrow> \<not> same_id (favs ! i) (favs ! j))"
proof
  assume u: "unique_ids favs"
  show "\<forall>i j. i < length favs \<longrightarrow> j < length favs \<longrightarrow> i \<noteq> j \<longrightarrow> \<not> same_id (favs ! i) (favs ! j)"
  proof (intro allI impI)
    fix i j assume ij: "i < length favs" "j < length favs" "i \<noteq> j"
    from u have ordered: "\<And>a b. a < b \<Longrightarrow> b < length favs \<Longrightarrow> \<not> same_id (favs ! a) (favs ! b)"
      by (simp add: unique_ids_sorted_wrt sorted_wrt_iff_nth_less)
    show "\<not> same_id (favs ! i) (favs ! j)"
    proof (cases "i < j")
      case True
      with ij ordered show ?thesis by blast
    next
      case False
      with ij have "j < i" by simp
      with ij ordered have "\<not> same_id (favs ! j) (favs ! i)" by blast
      then show ?thesis using same_id_sym by blast
    qed
  qed
next
  assume "\<forall>i j. i < length favs \<longrightarrow> j < length favs \<longrightarrow> i \<noteq> j \<longrightarrow> \<not> same_id (favs ! i) (favs ! j)"
  then show "unique_ids favs"
    by (simp add: unique_ids_sorted_wrt sorted_wrt_iff_nth_less)
qed

lemma toggle_step_unique:
  assumes ids: "\<forall>f \<in> set favs. has_id f" "has_id recipe" and u: "unique_ids favs"
  shows "\<exists>found favs'. any_same_id favs recipe = Inr found
      \<and> toggled_favorites found (JArr favs) recipe = Inr (JArr favs')
      \<and> unique_ids favs' \<and> (\<forall>f \<in> set favs'. has_id f)"
proof (cases "\<exists>f \<in> set favs. same_id f recipe")
  case True
  with ids have "any_same_id favs recipe = Inr True"
    by (simp add: any_same_id_eq)
  moreover have "toggled_favorites True (JArr favs) recipe
      = Inr (JArr (filter (\<lambda>f. \<not> same_id f recipe) favs))"
    using ids by (simp add: toggled_favorites_def remove_by_id_eq)
  moreover have "unique_ids (filter (\<lambda>f. \<not> same_id f recipe) favs)"
    using u by (rule unique_ids_filter)
  moreover have "\<forall>f \<in> set (filter (\<lambda>f. \<not> same_id f recipe) favs). has_id f"
    using ids by simp
  ultimately show ?thesis by blast
next
  case False
  with ids have "any_same_id favs recipe = Inr False"
    by (simp add: any_same_id_eq)
  moreover have "toggled_favorites False (JArr favs) recipe = Inr (JArr (favs @ [recipe]))"
    by (simp add: toggled_favorites_def)
  moreover have "unique_ids (favs @ [recipe])"
    using u False by (simp add: unique_ids_append)
  moreover have "\<forall>f \<in> set (favs @ [recipe]). has_id f"
    using ids by simp
  ultimately show ?thesis by blast
qed

lemma toggle_all_unique:
  assumes "\<forall>r \<in> set recipes. has_id r" and "\<forall>f \<in> set favs. has_id f" and "unique_ids favs"
  shows "\<exists>reached. toggle_all favs recipes = Inr reached \<and> unique_ids reached
      \<and> (\<forall>f \<in> set reached. has_id f)"
  using assms
proof (induction recipes arbitrary: favs)
  case Nil
  then show ?case by simp
next
  case (Cons r rs)
  from Cons.prems obtain found favs' where step: "any_same_id favs r = Inr found"
      "toggled_favorites found (JArr favs) r = Inr (JArr favs')"
      "unique_ids favs'" "\<forall>f \<in> set favs'. has_id f"
    using toggle_step_unique [of favs r] by auto
  from Cons.IH [OF _ step(4) step(3)] Cons.prems(1)
  obtain reached where "toggle_all favs' rs = Inr reached" "unique_ids reached"
      "\<forall>f \<in> set reached. has_id f"
    by auto
  with step show ?case by simp
qed

text \<open>
  Claim C6. If all records of a list and the recipe have ids and no two records of the list
  have equal ids, then the toggle of the recipe succeeds and no two records of the new list
  have equal ids. Hence every history of toggles of recipes with ids, started from the empty
  list, ends in a list in which no two records have equal ids.
\<close>

theorem unique_ids_invariant:
  "((\<forall>f \<in> set favs. has_id f) \<and> has_id recipe \<and> unique_ids favs \<longrightarrow>
      (\<exists>found favs'. any_same_id favs recipe = Inr found
         \<and> toggled_favorites found (JArr favs) recipe = Inr (JArr favs')
         \<and> unique_ids favs' \<and> (\<forall>f \<in> set favs'. has_id f)))
   \<and> ((\<forall>r \<in> set recipes. has_id r) \<longrightarrow>
      (\<exists>reached. toggle_all [] recipes = Inr reached \<and> unique_ids reached))"
  using toggle_step_unique [of favs recipe] toggle_all_unique [of recipes "[]"]
  by auto

theorem unique_ids_invariant_witness:
  "(\<exists>found favs'.
      any_same_id [JObj [(''id'', JInt 1)], JObj [(''id'', JInt 2)]] (JObj [(''id'', JInt 2)]) = Inr found
      \<and> toggled_favorites found (JArr [JObj [(''id'', JInt 1)], JObj [(''id'', JInt 2)]])
            (JObj [(''id'', JInt 2)]) = Inr (JArr favs')
      \<and> unique_ids favs' \<and> (\<forall>f \<in> set favs'. has_id f))
   \<and> (\<exists>reached.
      toggle_all [] [JObj [(''id'', JInt 1)], JObj [(''id'', JInt 2)], JObj [(''id'', JInt 1)]] = Inr reached
      \<and> unique_ids reached)"
proof -
  have start: "(\<forall>f \<in> set [JObj [(''id'', JInt 1)], JObj [(''id'', JInt 2)]]. has_id f)
      \<and> has_id (JObj [(''id'', JInt 2)])
      \<and> unique_ids [JObj [(''id'', JInt 1)], JObj [(''id'', JInt 2)]]"
    by (simp add: has_id_def record_id_def same_id_def)
  have history: "\<forall>r \<in> set [JObj [(''id'', JInt 1)], JObj [(''id'', JInt 2)], JObj [(''id'', JInt 1)]]. has_id r"
    by (simp add: has_id_def record_id_def)
  show ?thesis
    using unique_ids_invariant [of "[JObj [(''id'', JInt 1)], JObj [(''id'', JInt 2)]]" "JObj [(''id'', JInt 2)]"
      "[JObj [(''id'', JInt 1)], JObj [(''id'', JInt 2)], JObj [(''id'', JInt 1)]]"] start history
    by blast
qed

section \<open>Properties of the cache key\<close>

text \<open>
  Claim C9. Two ingredient lists that are permutations of each other get the same cache key.
\<close>

theorem cache_key_permutation:
  assumes "mset xs = mset ys"
  shows "ingredients_cache_key xs = ingredients_cache_key ys"
proof -
  have "sort xs = sort ys"
    using assms by (intro properties_for_sort) simp_all
  then show ?thesis by (simp add: ingredients_cache_key_def)
qed

theorem cache_key_permutation_witness:
  "ingredients_cache_key [''rice'', ''chicken'', ''tomatoes'']
     = ingredients_cache_key [''tomatoes'', ''rice'', ''chicken'']"
  using cache_key_permutation [of "[''rice'', ''chicken'', ''tomatoes'']" "[''tomatoes'', ''rice'', ''chicken'']"]
  by simp

section \<open>Properties of the API client\<close>

lemma guarded_get_success:
  "requests_get url params = Inr resp \<Longrightarrow> \<not> (400 \<le> status_code resp \<and> status_code resp < 600)
    \<Longrightarrow> json_method resp = Inr body \<Longrightarrow> guarded_get requests_get url params = Inr ([], body)"
  by (simp add: guarded_get_def raise_for_status_def)

lemma guarded_get_connection_error:
  "requests_get url params = Inl (RequestException m)
    \<Longrightarrow> guarded_get requests_get url params
        = Inr ([''Error connecting to Spoonacular API: '' @ m], JNull)"
  by (simp add: guarded_get_def)

lemma guarded_get_http_error:
  "requests_get url params = Inr resp \<Longrightarrow> 400 \<le> status_code resp \<and> status_code resp < 600
    \<Longrightarrow> guarded_get requests_get url params
        = Inr ([''Error connecting to Spoonacular API: '' @ http_error resp], JNull)"
  by (simp add: guarded_get_def raise_for_status_def)

lemma guarded_get_body_error:
  "requests_get url params = Inr resp \<Longrightarrow> \<not> (400 \<le> status_code resp \<and> status_code resp < 600)
    \<Longrightarrow> json_method resp = Inl (RequestException m)
    \<Longrightarrow> guarded_get requests_get url params
        = Inr ([''Error connecting to Spoonacular API: '' @ m], JNull)"
  by (auto simp: guarded_get_def raise_for_status_def)

lemma guarded_get_escape:
  "guarded_get requests_get url params = Inl e
    \<Longrightarrow> (requests_get url params = Inl e
          \<or> (\<exists>resp. requests_get url params = Inr resp \<and> json_method resp = Inl e))
        \<and> (\<forall>m. e \<noteq> RequestException m)"
  by (auto simp: guarded_get_def raise_for_status_def bind_exn_def split: sum.splits exn.splits if_splits)

lemma guarded_get_contract:
  "(requests_get url params = Inr resp \<and> \<not> (400 \<le> status_code resp \<and> status_code resp < 600)
        \<and> json_method resp = Inr body
      \<longrightarrow> guarded_get requests_get url params = Inr ([], body))
   \<and> (requests_get url params = Inl (RequestException m)
      \<longrightarrow> guarded_get requests_get url params
            = Inr ([''Error connecting to Spoonacular API: '' @ m], JNull))
   \<and> (requests_get url params = Inr resp \<and> 400 \<le> status_code resp \<and> status_code resp < 600
      \<longrightarrow> guarded_get requests_get url params
            = Inr ([''Error connecting to Spoonacular API: '' @ http_error resp], JNull))
   \<and> (requests_get url params = Inr resp \<and> \<not> (400 \<le> status_code resp \<and> status_code resp < 600)
        \<and> json_method resp = Inl (RequestException m)
      \<longrightarrow> guarded_get requests_get url params
            = Inr ([''Error connecting to Spoonacular API: '' @ m], JNull))
   \<and> (guarded_get requests_get url params = Inl e
      \<longrightarrow> (requests_get url params = Inl e
            \<or> (\<exists>r. requests_get url params = Inr r \<and> json_method r = Inl e))
          \<and> (\<forall>t. e \<noteq> RequestException t))"
  using guarded_get_success [of requests_get url params resp body]
    guarded_get_connection_error [of requests_get url params m]
    guarded_get_http_error [of requests_get url params resp]
    guarded_get_body_error [of requests_get url params resp m]
    guarded_get_escape [of requests_get url params e]
  by blast

text \<open>
  Claim C7. Let \<open>url\<close>, \<open>params\<close> and \<open>result\<close> be the address, the query and the result
  of one of the three operations. If the GET returns a response whose status is not an error
  code and whose body parses, the result is the parsed body and nothing is printed. If the GET
  raises a request exception, or the status is a client or server error code, or parsing the
  body raises a request exception, the result is \<open>None\<close> after one printed line, "Error
  connecting to Spoonacular API: " followed by the text of the error. No request exception
  leaves the operation: an exception that does leave it was raised by the GET or by the
  parsing of the body and is not a request exception.
\<close>

theorem api_client_boundary:
  fixes requests_get :: "string \<Rightarrow> (string \<times> json) list \<Rightarrow> exn + response"
  assumes "(url, params, result) \<in> set
     [(BASE_URL @ ''/recipes/findByIngredients'',
       [(''ingredients'', JStr (py_join '','' ingredients)), (''number'', JInt number),
        (''apiKey'', JStr api_key)],
       search_recipes_by_ingredients requests_get api_key ingredients number),
      (BASE_URL @ ''/recipes/complexSearch'',
       [(''cuisine'', JStr cuisine), (''number'', JInt number), (''apiKey'', JStr api_key)]
         @ (case meal_type of None \<Rightarrow> [] | Some t \<Rightarrow> if t = [] then [] else [(''type'', JStr t)]),
       find_recipes_by_cuisine requests_get api_key cuisine meal_type number),
      (BASE_URL @ ''/recipes/'' @ py_str recipe_id @ ''/information'',
       [(''includeNutrition'', JBool True), (''apiKey'', JStr api_key)],
       get_recipe_details requests_get py_str api_key recipe_id)]"
  shows "(requests_get url params = Inr resp \<and> \<not> (400 \<le> status_code resp \<and> status_code resp < 600)
          \<and> json_method resp = Inr body
        \<longrightarrow> result = Inr ([], body))
     \<and> (requests_get url params = Inl (RequestException m)
        \<longrightarrow> result = Inr ([''Error connecting to Spoonacular API: '' @ m], JNull))
     \<and> (requests_get url params = Inr resp \<and> 400 \<le> status_code resp \<and> status_code resp < 600
        \<longrightarrow> result = Inr ([''Error connecting to Spoonacular API: '' @ http_error resp], JNull))
     \<and> (requests_get url params = Inr resp \<and> \<not> (400 \<le> status_code resp \<and> status_code resp < 600)
          \<and> json_method resp = Inl (RequestException m)
        \<longrightarrow> result = Inr ([''Error connecting to Spoonacular API: '' @ m], JNull))
     \<and> (result = Inl e
        \<longrightarrow> (requests_get url params = Inl e
              \<or> (\<exists>r. requests_get url params = Inr r \<and> json_method r = Inl e))
            \<and> (\<forall>t. e \<noteq> RequestException t))"
proof -
  have "result = guarded_get requests_get url params"
    using assms
    by (auto simp: search_recipes_by_ingredients_def find_recipes_by_cuisine_def
        get_recipe_details_def split: option.splits)
  then show ?thesis
    using guarded_get_contract [of requests_get url params resp body m e] by simp
qed

theorem api_client_boundary_witness:
  "search_recipes_by_ingredients
      (\<lambda>url params.
         Inr \<lparr>status_code = 200, http_error = [], json_method = Inr (JArr [JObj [(''id'', JInt 5)]])\<rparr>)
      ''key'' [''rice'', ''egg''] 7
     = Inr ([], JArr [JObj [(''id'', JInt 5)]])
   \<and> find_recipes_by_cuisine
      (\<lambda>url params.
         Inr \<lparr>status_code = 402, http_error = ''402 Client Error'', json_method = Inr JNull\<rparr>)
      ''key'' ''thai'' (Some ''soup'') 5
     = Inr ([''Error connecting to Spoonacular API: 402 Client Error''], JNull)
   \<and> get_recipe_details (\<lambda>url params. Inl (RequestException ''timed out'')) (\<lambda>v. ''5'') ''key'' (JInt 5)
     = Inr ([''Error connecting to Spoonacular API: timed out''], JNull)"
  using api_client_boundary [where
      requests_get = "\<lambda>url params.
         Inr \<lparr>status_code = 200, http_error = [], json_method = Inr (JArr [JObj [(''id'', JInt 5)]])\<rparr>"
      and url = "BASE_URL @ ''/recipes/findByIngredients''"
      and params = "[(''ingredients'', JStr (py_join '','' [''rice'', ''egg''])), (''number'', JInt 7),
                     (''apiKey'', JStr ''key'')]"
      and result = "search_recipes_by_ingredients
        (\<lambda>url params.
         Inr \<lparr>status_code = 200, http_error = [], json_method = Inr (JArr [JObj [(''id'', JInt 5)]])\<rparr>)
        ''key'' [''rice'', ''egg''] 7"
      and ingredients = "[''rice'', ''egg'']" and number = 7 and api_key = "''key''"
      and resp = "\<lparr>status_code = 200, http_error = [], json_method = Inr (JArr [JObj [(''id'', JInt 5)]])\<rparr>"
      and body = "JArr [JObj [(''id'', JInt 5)]]"]
    api_client_boundary [where
      requests_get = "\<lambda>url params.
         Inr \<lparr>status_code = 402, http_error = ''402 Client Error'', json_method = Inr JNull\<rparr>"
      and url = "BASE_URL @ ''/recipes/complexSearch''"
      and params = "[(''cuisine'', JStr ''thai''), (''number'', JInt 5), (''apiKey'', JStr ''key''),
                     (''type'', JStr ''soup'')]"
      and result = "find_recipes_by_cuisine
        (\<lambda>url params.
         Inr \<lparr>status_code = 402, http_error = ''402 Client Error'', json_method = Inr JNull\<rparr>)
        ''key'' ''thai'' (Some ''soup'') 5"
      and cuisine = "''thai''" and meal_type = "Some ''soup''" and number = 5 and api_key = "''key''"
      and resp = "\<lparr>status_code = 402, http_error = ''402 Client Error'', json_method = Inr JNull\<rparr>"]
    api_client_boundary [where
      requests_get = "\<lambda>url params. Inl (RequestException ''timed out'')"
      and url = "BASE_URL @ ''/recipes/'' @ ''5'' @ ''/information''"
      and params = "[(''includeNutrition'', JBool True), (''apiKey'', JStr ''key'')]"
      and result = "get_recipe_details (\<lambda>url params. Inl (RequestException ''timed out''))
        (\<lambda>v. ''5'') ''key'' (JInt 5)"
      and py_str = "\<lambda>v. ''5''" and recipe_id = "JInt 5" and api_key = "''key''"
      and m = "''timed out''"]
  by simp

end
